theory Spec2Isabelle
  imports
    Main
    "HOL-Library.AList"
    "HOL-Library.Char_ord"
    "HOL-Library.List_Lexorder"
    "HOL-Library.Multiset"
    "HOL-Library.Word"
begin

section \<open>The sharded SQLite driver of micro-analytics\<close>

text \<open>
  The Go package \<^verbatim>\<open>sqlite\<close> (type \<^verbatim>\<open>Sharded\<close>) stores the analytics of one
  dataset in one SQLite file per month and answers \<^verbatim>\<open>Query\<close>, \<^verbatim>\<open>GroupBy\<close>,
  \<^verbatim>\<open>Series\<close> and \<^verbatim>\<open>Insert\<close> over these shards, with an LRU cache of per-shard
  results keyed by a normalised request URL. The functions below follow the Go source
  function by function; what the source calls in other packages is either modelled
  (the few functions of \<^verbatim>\<open>strconv\<close>, \<^verbatim>\<open>strings\<close>, \<^verbatim>\<open>time\<close>, \<^verbatim>\<open>net/url\<close> it
  uses) or taken as a parameter (the connection manager and the query executor).
\<close>

subsection \<open>Errors\<close>

text \<open>
  \<^verbatim>\<open>errors.InternalError\<close>, \<^verbatim>\<open>errors.InvalidDatabaseName\<close> and
  \<^verbatim>\<open>errors.InsertFailed\<close> are the driver's own errors; \<open>NumError\<close> is the
  \<^verbatim>\<open>*strconv.NumError\<close> that \<^verbatim>\<open>strconv.Atoi\<close> returns.
\<close>

datatype error = InternalError | InvalidDatabaseName | InsertFailed | NumError

subsection \<open>\<^verbatim>\<open>strconv\<close> and \<^verbatim>\<open>strings\<close>\<close>

definition is_digit :: "char \<Rightarrow> bool" where
  "is_digit c = (48 \<le> (of_char c :: int) \<and> (of_char c :: int) \<le> 57)"

definition digit_val :: "char \<Rightarrow> int" where
  "digit_val c = of_char c - 48"

definition parse_digits :: "string \<Rightarrow> int" where
  "parse_digits ds = foldl (\<lambda>n c. 10 * n + digit_val c) 0 ds"

text \<open>
  \<^verbatim>\<open>strconv.Atoi\<close> in base 10: an optional sign, then one or more decimal digits;
  anything else is a syntax error, and a value outside the 64-bit \<^verbatim>\<open>int\<close> is a
  range error.
\<close>

definition Atoi :: "string \<Rightarrow> error + int" where
  "Atoi s =
     (let neg = (s \<noteq> [] \<and> hd s = CHR ''-'');
          ds = (if s \<noteq> [] \<and> (hd s = CHR ''-'' \<or> hd s = CHR ''+'') then tl s else s)
      in if ds = [] \<or> \<not> list_all is_digit ds then Inl NumError
         else let v = (if neg then - parse_digits ds else parse_digits ds)
              in if v < - (2 ^ 63) \<or> 2 ^ 63 - 1 < v then Inl NumError else Inr v)"

definition digit_char :: "int \<Rightarrow> char" where
  "digit_char d = char_of (48 + d)"

text \<open>The decimal digits of a number that is not negative.\<close>

function digits :: "int \<Rightarrow> string" where
  "digits n = (if n < 10 then [digit_char n] else digits (n div 10) @ [digit_char (n mod 10)])"
  by pat_completeness auto
termination
  by (relation "measure nat") auto

declare digits.simps [simp del]

text \<open>\<^verbatim>\<open>strconv.Itoa\<close>.\<close>

definition Itoa :: "int \<Rightarrow> string" where
  "Itoa i = (if i < 0 then CHR ''-'' # digits (- i) else digits i)"

text \<open>\<^verbatim>\<open>strings.Split\<close> with a separator of one character, and \<^verbatim>\<open>strings.Join\<close>.\<close>

fun Split :: "string \<Rightarrow> char \<Rightarrow> string list" where
  "Split [] sep = [[]]"
| "Split (c # cs) sep =
     (if c = sep then [] # Split cs sep
      else (case Split cs sep of [] \<Rightarrow> [[c]] | p # ps \<Rightarrow> (c # p) # ps))"

definition Join :: "string list \<Rightarrow> string \<Rightarrow> string" where
  "Join parts sep = concat (case parts of [] \<Rightarrow> [] | p # ps \<Rightarrow> p # map (\<lambda>q. sep @ q) ps)"

subsection \<open>\<^verbatim>\<open>time\<close>\<close>

text \<open>
  A \<^verbatim>\<open>time.Time\<close> by its calendar fields (in the time's own location): the year, the
  month 1..12, the day of the month and the nanoseconds since midnight. The zero value
  \<^verbatim>\<open>time.Time{}\<close> is January 1 of year 1, 00:00:00.
\<close>

record time =
  year :: int
  month :: int
  day :: int
  nsec :: int

definition zero_time :: time where
  "zero_time = \<lparr>year = 1, month = 1, day = 1, nsec = 0\<rparr>"

text \<open>
  \<^verbatim>\<open>appendInt\<close> of package \<^verbatim>\<open>time\<close>: a minus sign for a negative number, then the
  decimal digits padded with zeros on the left to the width.
\<close>

definition appendInt :: "int \<Rightarrow> nat \<Rightarrow> string" where
  "appendInt x width =
     (let ds = digits \<bar>x\<bar>
      in (if x < 0 then ''-'' else '''') @ replicate (width - length ds) CHR ''0'' @ ds)"

text \<open>\<^verbatim>\<open>Time.Format\<close> for the two layouts the driver uses, "2006-01" and "200601".\<close>

definition Format_2006_01 :: "time \<Rightarrow> string" where
  "Format_2006_01 t = appendInt (year t) 4 @ ''-'' @ appendInt (month t) 2"

definition Format_200601 :: "time \<Rightarrow> string" where
  "Format_200601 t = appendInt (year t) 4 @ appendInt (month t) 2"

subsection \<open>\<^verbatim>\<open>net/url\<close>\<close>

text \<open>
  A request URL: what \<^verbatim>\<open>URL.String\<close> prints before the query (scheme, host, path),
  the query as the list of its decoded key/value pairs in the order of the raw query,
  and what is printed after the query (the fragment with its \<^verbatim>\<open>#\<close>, or nothing).
\<close>

record URL =
  prefix :: string
  params :: "(string \<times> string) list"
  suffix :: string

text \<open>
  \<^verbatim>\<open>url.Values\<close> is a \<^verbatim>\<open>map[string][]string\<close>: an association list with one entry
  per key. \<^verbatim>\<open>Values.Encode\<close> sorts the keys, so the order of the entries is not
  observable.
\<close>

type_synonym Values = "(string \<times> string list) list"

definition Values_Add :: "Values \<Rightarrow> string \<Rightarrow> string \<Rightarrow> Values" where
  "Values_Add v key val =
     AList.update key ((case map_of v key of None \<Rightarrow> [] | Some vs \<Rightarrow> vs) @ [val]) v"

definition Values_Del :: "Values \<Rightarrow> string \<Rightarrow> Values" where
  "Values_Del v key = AList.delete key v"

definition Values_Get :: "Values \<Rightarrow> string \<Rightarrow> string" where
  "Values_Get v key = (case map_of v key of None \<Rightarrow> [] | Some [] \<Rightarrow> [] | Some (x # _) \<Rightarrow> x)"

text \<open>\<^verbatim>\<open>URL.Query\<close>: each pair of the query is appended to the values of its key.\<close>

definition URL_Query :: "URL \<Rightarrow> Values" where
  "URL_Query u = foldl (\<lambda>m (k, v). Values_Add m k v) [] (params u)"

definition hex_digit :: "int \<Rightarrow> char" where
  "hex_digit d = (if d < 10 then char_of (48 + d) else char_of (55 + d))"

definition unreserved :: "char \<Rightarrow> bool" where
  "unreserved c =
     (let n = (of_char c :: int)
      in (97 \<le> n \<and> n \<le> 122) \<or> (65 \<le> n \<and> n \<le> 90) \<or> (48 \<le> n \<and> n \<le> 57)
         \<or> c = CHR ''-'' \<or> c = CHR ''_'' \<or> c = CHR ''.'' \<or> c = CHR ''~'')"

text \<open>\<^verbatim>\<open>url.QueryEscape\<close>: a space is \<^verbatim>\<open>+\<close>, every other byte that is not
  unreserved is \<^verbatim>\<open>%XX\<close>.\<close>

definition QueryEscape :: "string \<Rightarrow> string" where
  "QueryEscape s =
     concat (map (\<lambda>c. if c = CHR '' '' then ''+''
                       else if unreserved c then [c]
                       else [CHR ''%'', hex_digit ((of_char c :: int) div 16),
                             hex_digit ((of_char c :: int) mod 16)]) s)"

text \<open>\<^verbatim>\<open>Values.Encode\<close>: \<^verbatim>\<open>key=value\<close> pairs joined by \<^verbatim>\<open>&\<close>, sorted by key.\<close>

definition Values_Encode :: "Values \<Rightarrow> string" where
  "Values_Encode v =
     Join (concat (map (\<lambda>(k, vs). map (\<lambda>x. QueryEscape k @ ''='' @ QueryEscape x) vs)
                       (sort_key fst v))) ''&''"

text \<open>\<^verbatim>\<open>URL.String\<close> of a URL whose raw query is \<open>q\<close>: the \<^verbatim>\<open>?\<close> is printed only
  before a query that is not empty.\<close>

definition URL_String :: "URL \<Rightarrow> string \<Rightarrow> string" where
  "URL_String u q = prefix u @ (if q = [] then [] else ''?'' @ q) @ suffix u"

subsection \<open>Shard names and time ranges\<close>

text \<open>\<^verbatim>\<open>timeToShardName\<close>: 2015-12-08T00:00:00.000Z becomes 2015-12.\<close>

definition timeToShardName :: "time \<Rightarrow> string" where
  "timeToShardName timeValue = Format_2006_01 timeValue"

text \<open>\<^verbatim>\<open>shardNameToInt\<close>: 2015-12 becomes 201512.\<close>

definition shardNameToInt :: "string \<Rightarrow> error + int" where
  "shardNameToInt shardName = Atoi (Join (Split shardName CHR ''-'') '''')"

record TimeRange =
  Start :: time
  End :: time

text \<open>
  \<^verbatim>\<open>timeRangeToInt\<close>: the bounds as YYYYMM integers, 0 and 999999 when the range or
  the bound is absent (or does not convert).
\<close>

definition timeRangeToInt :: "TimeRange option \<Rightarrow> int \<times> int" where
  "timeRangeToInt timeRange =
     (case timeRange of
        None \<Rightarrow> (0, 999999)
      | Some tr \<Rightarrow>
          (if Start tr \<noteq> zero_time
           then (case Atoi (Format_200601 (Start tr)) of Inl _ \<Rightarrow> 0 | Inr n \<Rightarrow> n)
           else 0,
           if End tr \<noteq> zero_time
           then (case Atoi (Format_200601 (End tr)) of Inl _ \<Rightarrow> 999999 | Inr n \<Rightarrow> n)
           else 999999))"

subsection \<open>The cache key\<close>

text \<open>
  The query parameters of the cache key, lines 463 to 486 of the source without the
  error return: \<open>currentMonth\<close> is the integer of the current month's shard.
\<close>

definition cacheParams :: "URL \<Rightarrow> int \<Rightarrow> int \<Rightarrow> int \<Rightarrow> int \<Rightarrow> Values" where
  "cacheParams uRL shardName startMonth endMonth currentMonth =
     (let queryParams = URL_Query uRL;
          queryParams = (if startMonth < shardName then Values_Del queryParams ''start''
                         else queryParams);
          queryParams = (if endMonth > shardName then Values_Del queryParams ''end''
                         else queryParams);
          queryParams = (if shardName < currentMonth then Values_Del queryParams ''cache''
                         else queryParams)
      in Values_Add queryParams ''shard'' (Itoa shardName))"

text \<open>
  \<^verbatim>\<open>formatURLForCache\<close>; \<open>now\<close> is what \<^verbatim>\<open>time.Now()\<close> returns during the call.
\<close>

definition formatURLForCache :: "time \<Rightarrow> URL \<Rightarrow> int \<Rightarrow> int \<Rightarrow> int \<Rightarrow> error + string" where
  "formatURLForCache now uRL shardName startMonth endMonth =
     (case shardNameToInt (timeToShardName now) of
        Inl err \<Rightarrow> Inl err
      | Inr currentMonth \<Rightarrow>
          Inr (URL_String uRL
                 (Values_Encode (cacheParams uRL shardName startMonth endMonth currentMonth))))"

text \<open>\<^verbatim>\<open>cachedRequest\<close>: true if the cache query parameter is passed.\<close>

definition cachedRequest :: "URL \<Rightarrow> bool" where
  "cachedRequest uRL = (length (Values_Get (URL_Query uRL) ''cache'') > 0)"

subsection \<open>Rows, parameters and cached values\<close>

text \<open>
  Modelled from the spec: the row types of package \<^verbatim>\<open>database\<close>, whose declarations
  are not among the sources. An analytic record is a timestamp plus opaque dimensional
  fields; an aggregate is a (group id, total, unique) triple, with Go \<^verbatim>\<open>int\<close> counters
  (64 bits, wrapping); an interval is a time-bucketed count.
\<close>

record Analytic =
  Time :: time
  Fields :: "string list"

record Aggregate =
  Id :: string
  Total :: "64 word"
  Unique :: "64 word"

record Interval =
  Bucket :: string
  Count :: "64 word"

text \<open>
  \<^verbatim>\<open>database.Params\<close>, the fields the driver reads; \<open>UniqueQuery\<close> is the field
  \<^verbatim>\<open>Unique\<close>, \<open>TimeRange\<close> is a pointer that may be nil.
\<close>

record Params =
  DBName :: string
  URL :: URL
  TimeRange :: "TimeRange option"
  Property :: string
  Interval :: int
  UniqueQuery :: bool

text \<open>
  The cache holds values of type \<^verbatim>\<open>interface{}\<close>; the driver stores pointers to the
  three result types and checks the type when it reads one back.
\<close>

datatype cached =
  Analytics "Analytic list"
| Aggregates "Aggregate list"
| Intervals "Interval list"

subsection \<open>The result cache\<close>

text \<open>
  Modelled from the spec: the result cache (\<^verbatim>\<open>lru.Cache\<close> of hashicorp/golang-lru,
  not among the sources) has a fixed capacity; \<open>get\<close> returns the value of a key or a
  miss, \<open>put\<close> is an unconditional insert that evicts the least recently used entry
  on overflow. The entries are kept most recently used first.
\<close>

record lru =
  capacity :: nat
  items :: "(string \<times> cached) list"

definition lru_Get :: "lru \<Rightarrow> string \<Rightarrow> cached option \<times> lru" where
  "lru_Get c key =
     (case map_of (items c) key of
        None \<Rightarrow> (None, c)
      | Some v \<Rightarrow> (Some v, c\<lparr>items := (key, v) # AList.delete key (items c)\<rparr>))"

definition lru_Add :: "lru \<Rightarrow> string \<Rightarrow> cached \<Rightarrow> lru" where
  "lru_Add c key v =
     (case map_of (items c) key of
        Some _ \<Rightarrow> c\<lparr>items := (key, v) # AList.delete key (items c)\<rparr>
      | None \<Rightarrow>
          (let its = (key, v) # items c
           in c\<lparr>items := (if length its > capacity c then butlast its else its)\<rparr>))"

subsection \<open>The collaborators and the driver's state\<close>

text \<open>\<^verbatim>\<open>manager.DBPath\<close>.\<close>

record DBPath =
  Name :: string
  Directory :: string

text \<open>
  The connection manager, the query executor, the file system and the clock are
  parameters of the model: functions of a world \<open>'w\<close> that only they can read and
  change. \<open>'c\<close> is the type of the handles \<^verbatim>\<open>GetDB\<close> returns. An error return is
  \<open>None\<close>. \<^verbatim>\<open>GetDB\<close> may create storage and \<^verbatim>\<open>query.Insert\<close> writes, so both
  return the new world.
\<close>

record ('w, 'c) env =
  DBExists :: "'w \<Rightarrow> DBPath \<Rightarrow> bool option"
  DBPath_String :: "DBPath \<Rightarrow> string"
  ReadDir :: "'w \<Rightarrow> string \<Rightarrow> string list option"
  GetDB :: "'w \<Rightarrow> DBPath \<Rightarrow> ('c \<times> 'w) option"
  query_Query :: "'w \<Rightarrow> 'c \<Rightarrow> TimeRange option \<Rightarrow> Analytic list option"
  query_GroupBy :: "'w \<Rightarrow> 'c \<Rightarrow> string \<Rightarrow> TimeRange option \<Rightarrow> Aggregate list option"
  query_GroupByUniq :: "'w \<Rightarrow> 'c \<Rightarrow> string \<Rightarrow> TimeRange option \<Rightarrow> Aggregate list option"
  query_Series :: "'w \<Rightarrow> 'c \<Rightarrow> int \<Rightarrow> TimeRange option \<Rightarrow> Interval list option"
  query_SeriesUniq :: "'w \<Rightarrow> 'c \<Rightarrow> int \<Rightarrow> TimeRange option \<Rightarrow> Interval list option"
  query_Insert :: "'w \<Rightarrow> 'c \<Rightarrow> Analytic \<Rightarrow> 'w option"
  Now :: "'w \<Rightarrow> time"

text \<open>
  The calls the driver makes on its collaborators, in the order it makes them: cache
  reads and writes, the manager's existence check and connection acquisition, the
  handle's lock and unlock, and the executor call on a handle.
\<close>

datatype 'c event =
  Cache_Get string
| Cache_Add string
| DB_Exists DBPath
| Get_DB DBPath
| Lock 'c
| Unlock 'c
| Exec 'c

text \<open>
  The \<^verbatim>\<open>Sharded\<close> driver: its directory and its cache, with the world its manager
  works on and the trace of the calls made so far.
\<close>

record ('w, 'c) Sharded =
  directory :: string
  cache :: lru
  world :: 'w
  trace :: "'c event list"

text \<open>What one round of a loop over the shards does: return an error, skip the
  shard (\<^verbatim>\<open>continue\<close>), or go on with the shard's result.\<close>

datatype 'a step = Abort error | Skip | Result 'a

text \<open>\<^verbatim>\<open>listShards\<close>: the names of the directory's entries; nil if it cannot be read.\<close>

definition listShards :: "('w, 'c) env \<Rightarrow> 'w \<Rightarrow> DBPath \<Rightarrow> string list" where
  "listShards e w dbPath =
     (case ReadDir e w (DBPath_String e dbPath) of
        None \<Rightarrow> []
      | Some folders \<Rightarrow> foldl (\<lambda>shards folder. shards @ [folder]) [] folders)"

subsection \<open>Query\<close>

text \<open>The body of the loop of \<^verbatim>\<open>Query\<close> for one shard, up to the shard's result.\<close>

definition Query_shard ::
  "('w, 'c) env \<Rightarrow> Params \<Rightarrow> DBPath \<Rightarrow> bool \<Rightarrow> string \<Rightarrow> ('w, 'c) Sharded
     \<Rightarrow> Analytic list step \<times> ('w, 'c) Sharded" where
  "Query_shard e p dbPath cachedReq shardName d =
     (case shardNameToInt shardName of
        Inl err \<Rightarrow> (Abort err, d)
      | Inr shardInt \<Rightarrow>
          (case timeRangeToInt (TimeRange p) of
             (startInt, endInt) \<Rightarrow>
               if shardInt < startInt \<or> shardInt > endInt then (Skip, d)
               else
                 (case formatURLForCache (Now e (world d)) (URL p) shardInt startInt endInt of
                    Inl err \<Rightarrow> (Abort err, d)
                  | Inr cacheURL \<Rightarrow>
                      (case lru_Get (cache d) cacheURL of
                         (Some v, c1) \<Rightarrow>
                           (let d1 = d\<lparr>cache := c1, trace := trace d @ [Cache_Get cacheURL]\<rparr>
                            in case v of
                                 Analytics l \<Rightarrow> (Result l, d1)
                               | _ \<Rightarrow> (Abort InternalError, d1))
                       | (None, c1) \<Rightarrow>
                           (let d1 = d\<lparr>cache := c1, trace := trace d @ [Cache_Get cacheURL]\<rparr>;
                                shardPath = \<lparr>Name = shardName, Directory = DBPath_String e dbPath\<rparr>;
                                d2 = d1\<lparr>trace := trace d1 @ [Get_DB shardPath]\<rparr>
                            in case GetDB e (world d2) shardPath of
                                 None \<Rightarrow> (Abort InternalError, d2)
                               | Some (db, w1) \<Rightarrow>
                                   (let d3 = d2\<lparr>world := w1,
                                                 trace := trace d2 @ [Lock db, Exec db, Unlock db]\<rparr>
                                    in case query_Query e w1 db (TimeRange p) of
                                         None \<Rightarrow> (Abort InternalError, d3)
                                       | Some l \<Rightarrow>
                                           (Result l,
                                            if cachedReq
                                            then d3\<lparr>cache := lru_Add (cache d3) cacheURL (Analytics l),
                                                    trace := trace d3 @ [Cache_Add cacheURL]\<rparr>
                                            else d3)))))))"

text \<open>The loop of \<^verbatim>\<open>Query\<close> over the shards; \<open>analytics\<close> is the list built so far.
  The value is the pair Go returns (the result or nil, the error or nil) and the driver
  after the call.\<close>

fun Query_shards ::
  "('w, 'c) env \<Rightarrow> Params \<Rightarrow> DBPath \<Rightarrow> bool \<Rightarrow> string list \<Rightarrow> Analytic list
     \<Rightarrow> ('w, 'c) Sharded \<Rightarrow> (Analytic list option \<times> error option) \<times> ('w, 'c) Sharded" where
  "Query_shards e p dbPath cachedReq [] analytics d = ((Some analytics, None), d)"
| "Query_shards e p dbPath cachedReq (shardName # shards) analytics d =
     (case Query_shard e p dbPath cachedReq shardName d of
        (Abort err, d') \<Rightarrow> ((None, Some err), d')
      | (Skip, d') \<Rightarrow> Query_shards e p dbPath cachedReq shards analytics d'
      | (Result l, d') \<Rightarrow> Query_shards e p dbPath cachedReq shards (analytics @ l) d')"

definition Query ::
  "('w, 'c) env \<Rightarrow> Params \<Rightarrow> ('w, 'c) Sharded
     \<Rightarrow> (Analytic list option \<times> error option) \<times> ('w, 'c) Sharded" where
  "Query e p d =
     (let dbPath = \<lparr>Name = DBName p, Directory = directory d\<rparr>;
          d0 = d\<lparr>trace := trace d @ [DB_Exists dbPath]\<rparr>
      in case DBExists e (world d) dbPath of
           None \<Rightarrow> ((None, Some InternalError), d0)
         | Some dbExists \<Rightarrow>
             if \<not> dbExists then ((None, Some InvalidDatabaseName), d0)
             else Query_shards e p dbPath (cachedRequest (URL p))
                    (listShards e (world d) dbPath) [] d0)"

subsection \<open>GroupBy\<close>

text \<open>The body of the loop of \<^verbatim>\<open>GroupBy\<close> for one shard, up to the shard's result.\<close>

definition GroupBy_shard ::
  "('w, 'c) env \<Rightarrow> Params \<Rightarrow> DBPath \<Rightarrow> bool \<Rightarrow> string \<Rightarrow> ('w, 'c) Sharded
     \<Rightarrow> Aggregate list step \<times> ('w, 'c) Sharded" where
  "GroupBy_shard e p dbPath cachedReq shardName d =
     (case shardNameToInt shardName of
        Inl err \<Rightarrow> (Abort err, d)
      | Inr shardInt \<Rightarrow>
          (case timeRangeToInt (TimeRange p) of
             (startInt, endInt) \<Rightarrow>
               if shardInt < startInt \<or> shardInt > endInt then (Skip, d)
               else
                 (case formatURLForCache (Now e (world d)) (URL p) shardInt startInt endInt of
                    Inl err \<Rightarrow> (Abort err, d)
                  | Inr cacheURL \<Rightarrow>
                      (case lru_Get (cache d) cacheURL of
                         (Some v, c1) \<Rightarrow>
                           (let d1 = d\<lparr>cache := c1, trace := trace d @ [Cache_Get cacheURL]\<rparr>
                            in case v of
                                 Aggregates l \<Rightarrow> (Result l, d1)
                               | _ \<Rightarrow> (Abort InternalError, d1))
                       | (None, c1) \<Rightarrow>
                           (let d1 = d\<lparr>cache := c1, trace := trace d @ [Cache_Get cacheURL]\<rparr>;
                                shardPath = \<lparr>Name = shardName, Directory = DBPath_String e dbPath\<rparr>;
                                d2 = d1\<lparr>trace := trace d1 @ [Get_DB shardPath]\<rparr>
                            in case GetDB e (world d2) shardPath of
                                 None \<Rightarrow> (Abort InternalError, d2)
                               | Some (db, w1) \<Rightarrow>
                                   (let d3 = d2\<lparr>world := w1,
                                                 trace := trace d2 @ [Lock db, Exec db, Unlock db]\<rparr>
                                    in case (if UniqueQuery p
                                             then query_GroupByUniq e w1 db (Property p) (TimeRange p)
                                             else query_GroupBy e w1 db (Property p) (TimeRange p)) of
                                         None \<Rightarrow> (Abort InternalError, d3)
                                       | Some l \<Rightarrow>
                                           (Result l,
                                            if cachedReq
                                            then d3\<lparr>cache := lru_Add (cache d3) cacheURL (Aggregates l),
                                                    trace := trace d3 @ [Cache_Add cacheURL]\<rparr>
                                            else d3)))))))"

text \<open>
  Lines 225 to 233: one aggregate of a shard's result goes into the helper map
  (\<^verbatim>\<open>map[string]database.Aggregate\<close>, here an association list with one entry per
  group id).
\<close>

definition addAggregate :: "(string \<times> Aggregate) list \<Rightarrow> Aggregate \<Rightarrow> (string \<times> Aggregate) list" where
  "addAggregate analyticsMap analytic =
     (case map_of analyticsMap (Id analytic) of
        Some tot \<Rightarrow>
          AList.update (Id analytic)
            (tot\<lparr>Total := Total tot + Total analytic,
                 Unique := Unique tot + Unique analytic\<rparr>) analyticsMap
      | None \<Rightarrow> AList.update (Id analytic) analytic analyticsMap)"

definition addShard :: "(string \<times> Aggregate) list \<Rightarrow> Aggregate list \<Rightarrow> (string \<times> Aggregate) list" where
  "addShard analyticsMap l = foldl addAggregate analyticsMap l"

text \<open>The helper map after the results of the shards \<open>ls\<close>, merged in this order.\<close>

definition mergeShards :: "Aggregate list list \<Rightarrow> (string \<times> Aggregate) list" where
  "mergeShards ls = foldl addShard [] ls"

text \<open>
  The loop of \<^verbatim>\<open>GroupBy\<close>. Go iterates the helper map in an unspecified order to
  build the result list; the model lists its entries in the order of first insertion.
\<close>

fun GroupBy_shards ::
  "('w, 'c) env \<Rightarrow> Params \<Rightarrow> DBPath \<Rightarrow> bool \<Rightarrow> string list \<Rightarrow> (string \<times> Aggregate) list
     \<Rightarrow> ('w, 'c) Sharded \<Rightarrow> (Aggregate list option \<times> error option) \<times> ('w, 'c) Sharded" where
  "GroupBy_shards e p dbPath cachedReq [] analyticsMap d =
     ((Some (map snd analyticsMap), None), d)"
| "GroupBy_shards e p dbPath cachedReq (shardName # shards) analyticsMap d =
     (case GroupBy_shard e p dbPath cachedReq shardName d of
        (Abort err, d') \<Rightarrow> ((None, Some err), d')
      | (Skip, d') \<Rightarrow> GroupBy_shards e p dbPath cachedReq shards analyticsMap d'
      | (Result l, d') \<Rightarrow>
          GroupBy_shards e p dbPath cachedReq shards (addShard analyticsMap l) d')"

definition GroupBy ::
  "('w, 'c) env \<Rightarrow> Params \<Rightarrow> ('w, 'c) Sharded
     \<Rightarrow> (Aggregate list option \<times> error option) \<times> ('w, 'c) Sharded" where
  "GroupBy e p d =
     (let dbPath = \<lparr>Name = DBName p, Directory = directory d\<rparr>;
          d0 = d\<lparr>trace := trace d @ [DB_Exists dbPath]\<rparr>
      in case DBExists e (world d) dbPath of
           None \<Rightarrow> ((None, Some InternalError), d0)
         | Some dbExists \<Rightarrow>
             if \<not> dbExists then ((None, Some InvalidDatabaseName), d0)
             else GroupBy_shards e p dbPath (cachedRequest (URL p))
                    (listShards e (world d) dbPath) [] d0)"

subsection \<open>Series\<close>

text \<open>The body of the loop of \<^verbatim>\<open>Series\<close> for one shard: with \<^verbatim>\<open>params.Unique\<close> the
  executor runs between \<^verbatim>\<open>db.Lock()\<close> and \<^verbatim>\<open>db.Unlock()\<close>, without it the source
  calls neither.\<close>

definition Series_shard ::
  "('w, 'c) env \<Rightarrow> Params \<Rightarrow> DBPath \<Rightarrow> bool \<Rightarrow> string \<Rightarrow> ('w, 'c) Sharded
     \<Rightarrow> Interval list step \<times> ('w, 'c) Sharded" where
  "Series_shard e p dbPath cachedReq shardName d =
     (case shardNameToInt shardName of
        Inl err \<Rightarrow> (Abort err, d)
      | Inr shardInt \<Rightarrow>
          (case timeRangeToInt (TimeRange p) of
             (startInt, endInt) \<Rightarrow>
               if shardInt < startInt \<or> shardInt > endInt then (Skip, d)
               else
                 (case formatURLForCache (Now e (world d)) (URL p) shardInt startInt endInt of
                    Inl err \<Rightarrow> (Abort err, d)
                  | Inr cacheURL \<Rightarrow>
                      (case lru_Get (cache d) cacheURL of
                         (Some v, c1) \<Rightarrow>
                           (let d1 = d\<lparr>cache := c1, trace := trace d @ [Cache_Get cacheURL]\<rparr>
                            in case v of
                                 Intervals l \<Rightarrow> (Result l, d1)
                               | _ \<Rightarrow> (Abort InternalError, d1))
                       | (None, c1) \<Rightarrow>
                           (let d1 = d\<lparr>cache := c1, trace := trace d @ [Cache_Get cacheURL]\<rparr>;
                                shardPath = \<lparr>Name = shardName, Directory = DBPath_String e dbPath\<rparr>;
                                d2 = d1\<lparr>trace := trace d1 @ [Get_DB shardPath]\<rparr>
                            in case GetDB e (world d2) shardPath of
                                 None \<Rightarrow> (Abort InternalError, d2)
                               | Some (db, w1) \<Rightarrow>
                                   (let d3 = d2\<lparr>world := w1,
                                                 trace := trace d2 @
                                                   (if UniqueQuery p then [Lock db, Exec db, Unlock db]
                                                    else [Exec db])\<rparr>
                                    in case (if UniqueQuery p
                                             then query_SeriesUniq e w1 db (Interval p) (TimeRange p)
                                             else query_Series e w1 db (Interval p) (TimeRange p)) of
                                         None \<Rightarrow> (Abort InternalError, d3)
                                       | Some l \<Rightarrow>
                                           (Result l,
                                            if cachedReq
                                            then d3\<lparr>cache := lru_Add (cache d3) cacheURL (Intervals l),
                                                    trace := trace d3 @ [Cache_Add cacheURL]\<rparr>
                                            else d3)))))))"

fun Series_shards ::
  "('w, 'c) env \<Rightarrow> Params \<Rightarrow> DBPath \<Rightarrow> bool \<Rightarrow> string list \<Rightarrow> Interval list
     \<Rightarrow> ('w, 'c) Sharded \<Rightarrow> (Interval list option \<times> error option) \<times> ('w, 'c) Sharded" where
  "Series_shards e p dbPath cachedReq [] analytics d = ((Some analytics, None), d)"
| "Series_shards e p dbPath cachedReq (shardName # shards) analytics d =
     (case Series_shard e p dbPath cachedReq shardName d of
        (Abort err, d') \<Rightarrow> ((None, Some err), d')
      | (Skip, d') \<Rightarrow> Series_shards e p dbPath cachedReq shards analytics d'
      | (Result l, d') \<Rightarrow> Series_shards e p dbPath cachedReq shards (analytics @ l) d')"

definition Series ::
  "('w, 'c) env \<Rightarrow> Params \<Rightarrow> ('w, 'c) Sharded
     \<Rightarrow> (Interval list option \<times> error option) \<times> ('w, 'c) Sharded" where
  "Series e p d =
     (let dbPath = \<lparr>Name = DBName p, Directory = directory d\<rparr>;
          d0 = d\<lparr>trace := trace d @ [DB_Exists dbPath]\<rparr>
      in case DBExists e (world d) dbPath of
           None \<Rightarrow> ((None, Some InternalError), d0)
         | Some dbExists \<Rightarrow>
             if \<not> dbExists then ((None, Some InvalidDatabaseName), d0)
             else Series_shards e p dbPath (cachedRequest (URL p))
                    (listShards e (world d) dbPath) [] d0)"

subsection \<open>Insert\<close>

text \<open>\<^verbatim>\<open>Insert\<close> returns only an error (or nil).\<close>

definition Insert ::
  "('w, 'c) env \<Rightarrow> Params \<Rightarrow> Analytic \<Rightarrow> ('w, 'c) Sharded \<Rightarrow> error option \<times> ('w, 'c) Sharded" where
  "Insert e p analytic d =
     (let dbPath = \<lparr>Name = DBName p, Directory = directory d\<rparr>;
          shardName = timeToShardName (Time analytic);
          shardPath = \<lparr>Name = shardName, Directory = DBPath_String e dbPath\<rparr>;
          d1 = d\<lparr>trace := trace d @ [Get_DB shardPath]\<rparr>
      in case GetDB e (world d) shardPath of
           None \<Rightarrow> (Some InternalError, d1)
         | Some (db, w1) \<Rightarrow>
             (let d2 = d1\<lparr>world := w1, trace := trace d1 @ [Lock db, Exec db, Unlock db]\<rparr>
              in case query_Insert e w1 db analytic of
                   None \<Rightarrow> (Some InsertFailed, d2)
                 | Some w2 \<Rightarrow> (None, d2\<lparr>world := w2\<rparr>)))"

subsection \<open>Notions the properties are stated with\<close>

text \<open>A shard label lies in the requested range: its integer \<open>s\<close> satisfies
  \<open>start_int \<le> s \<le> end_int\<close>.\<close>

definition in_range :: "Params \<Rightarrow> string \<Rightarrow> bool" where
  "in_range p shardName =
     (case shardNameToInt shardName of
        Inl _ \<Rightarrow> False
      | Inr s \<Rightarrow> (case timeRangeToInt (TimeRange p) of (a, b) \<Rightarrow> a \<le> s \<and> s \<le> b))"

definition parses :: "string \<Rightarrow> bool" where
  "parses shardName = (case shardNameToInt shardName of Inl _ \<Rightarrow> False | Inr _ \<Rightarrow> True)"

text \<open>
  The description of \<^verbatim>\<open>Query\<close> the source is compared with: take the result of each
  shard of the list in turn (cached or freshly executed), stop at the first failure,
  and return the results one after the other.
\<close>

fun fetch_shards ::
  "('w, 'c) env \<Rightarrow> Params \<Rightarrow> DBPath \<Rightarrow> bool \<Rightarrow> string list \<Rightarrow> ('w, 'c) Sharded
     \<Rightarrow> (error + Analytic list list) \<times> ('w, 'c) Sharded" where
  "fetch_shards e p dbPath cachedReq [] d = (Inr [], d)"
| "fetch_shards e p dbPath cachedReq (shardName # shards) d =
     (case Query_shard e p dbPath cachedReq shardName d of
        (Abort err, d') \<Rightarrow> (Inl err, d')
      | (Skip, d') \<Rightarrow> fetch_shards e p dbPath cachedReq shards d'
      | (Result l, d') \<Rightarrow>
          (case fetch_shards e p dbPath cachedReq shards d' of
             (Inl err, d'') \<Rightarrow> (Inl err, d'')
           | (Inr ls, d'') \<Rightarrow> (Inr (l # ls), d'')))"

definition concat_in_range ::
  "('w, 'c) env \<Rightarrow> Params \<Rightarrow> DBPath \<Rightarrow> bool \<Rightarrow> string list \<Rightarrow> ('w, 'c) Sharded
     \<Rightarrow> (Analytic list option \<times> error option) \<times> ('w, 'c) Sharded" where
  "concat_in_range e p dbPath cachedReq shards d =
     (case fetch_shards e p dbPath cachedReq (filter (in_range p) shards) d of
        (Inl err, d') \<Rightarrow> ((None, Some err), d')
      | (Inr ls, d') \<Rightarrow> ((Some (concat ls), None), d'))"

text \<open>The (total, unique) pair the helper map of \<^verbatim>\<open>GroupBy\<close> holds for a group id.\<close>

definition totals :: "(string \<times> Aggregate) list \<Rightarrow> string \<Rightarrow> (64 word \<times> 64 word) option" where
  "totals analyticsMap i = map_option (\<lambda>a. (Total a, Unique a)) (map_of analyticsMap i)"

text \<open>
  Every executor call of a trace stands between the lock and the unlock of its handle,
  and no lock or unlock stands elsewhere.
\<close>

fun exec_locked :: "'c event list \<Rightarrow> bool" where
  "exec_locked [] = True"
| "exec_locked (Lock a # Exec b # Unlock c # evs) = (a = b \<and> b = c \<and> exec_locked evs)"
| "exec_locked (Lock a # evs) = False"
| "exec_locked (Unlock a # evs) = False"
| "exec_locked (Exec a # evs) = False"
| "exec_locked (ev # evs) = exec_locked evs"

text \<open>A trace has neither a lock nor an unlock.\<close>

fun no_locks :: "'c event list \<Rightarrow> bool" where
  "no_locks [] = True"
| "no_locks (Lock a # evs) = False"
| "no_locks (Unlock a # evs) = False"
| "no_locks (ev # evs) = no_locks evs"

text \<open>The events a call added to the trace.\<close>

definition added :: "('w, 'c) Sharded \<Rightarrow> ('w, 'c) Sharded \<Rightarrow> 'c event list" where
  "added d d' = drop (length (trace d)) (trace d')"

subsection \<open>An in-memory manager and executor\<close>

text \<open>
  Modelled from the spec: the connection manager (\<open>exists\<close>, \<open>get_connection\<close>,
  which creates storage if absent) and the query executor, which are not among the
  sources. This instance keeps the directory listings and the rows of each shard in
  memory; a directory listed as \<open>None\<close> exists and cannot be read. Its executor
  returns every row of the shard (the examples pass no time range), one aggregate per
  row and one interval per shard, and \<^verbatim>\<open>Insert\<close> appends the record. It serves the
  examples; the theorems hold for every manager and executor.
\<close>

record mem =
  dirs :: "(string \<times> string list option) list"
  rows :: "(DBPath \<times> Analytic list) list"
  clock :: time

definition mem_String :: "DBPath \<Rightarrow> string" where
  "mem_String q = Directory q @ ''/'' @ Name q"

definition mem_rows :: "mem \<Rightarrow> DBPath \<Rightarrow> Analytic list" where
  "mem_rows w c = (case map_of (rows w) c of None \<Rightarrow> [] | Some l \<Rightarrow> l)"

definition mem_GetDB :: "mem \<Rightarrow> DBPath \<Rightarrow> (DBPath \<times> mem) option" where
  "mem_GetDB w q =
     Some (q, w\<lparr>dirs := (case map_of (dirs w) (Directory q) of
                           None \<Rightarrow> AList.update (Directory q) (Some [Name q]) (dirs w)
                         | Some None \<Rightarrow> dirs w
                         | Some (Some l) \<Rightarrow>
                             if Name q \<in> set l then dirs w
                             else AList.update (Directory q) (Some (l @ [Name q])) (dirs w)),
                 rows := (case map_of (rows w) q of
                            None \<Rightarrow> rows w @ [(q, [])]
                          | Some _ \<Rightarrow> rows w)\<rparr>)"

definition mem_env :: "(mem, DBPath) env" where
  "mem_env =
     \<lparr>DBExists = (\<lambda>w q. Some (map_of (dirs w) (mem_String q) \<noteq> None)),
      DBPath_String = mem_String,
      ReadDir = (\<lambda>w s. case map_of (dirs w) s of None \<Rightarrow> None | Some l \<Rightarrow> l),
      GetDB = mem_GetDB,
      query_Query = (\<lambda>w c tr. Some (mem_rows w c)),
      query_GroupBy = (\<lambda>w c prop tr.
         Some (map (\<lambda>a. \<lparr>Id = concat (Fields a), Total = 1, Unique = 1\<rparr>) (mem_rows w c))),
      query_GroupByUniq = (\<lambda>w c prop tr.
         Some (map (\<lambda>a. \<lparr>Id = concat (Fields a), Total = 1, Unique = 1\<rparr>) (mem_rows w c))),
      query_Series = (\<lambda>w c i tr.
         Some [\<lparr>Bucket = Name c, Count = of_nat (length (mem_rows w c))\<rparr>]),
      query_SeriesUniq = (\<lambda>w c i tr.
         Some [\<lparr>Bucket = Name c, Count = of_nat (length (mem_rows w c))\<rparr>]),
      query_Insert = (\<lambda>w c a. Some (w\<lparr>rows := AList.update c (mem_rows w c @ [a]) (rows w)\<rparr>)),
      Now = clock\<rparr>"

text \<open>The data of the examples: a dataset \<^verbatim>\<open>site\<close> under \<^verbatim>\<open>/data\<close> with the shards
  of November and December 2015, on December 8, 2015, and a driver with an empty cache
  of eight entries.\<close>

definition t_dec15 :: time where
  "t_dec15 = \<lparr>year = 2015, month = 12, day = 8, nsec = 0\<rparr>"

definition u_cache :: URL where
  "u_cache = \<lparr>prefix = ''/site/countries'', params = [(''cache'', ''true'')], suffix = []\<rparr>"

definition u_start1 :: URL where
  "u_start1 = \<lparr>prefix = ''/site/countries'',
               params = [(''start'', ''2015-01''), (''cache'', ''true'')], suffix = []\<rparr>"

definition u_start3 :: URL where
  "u_start3 = \<lparr>prefix = ''/site/countries'',
               params = [(''start'', ''2015-03''), (''cache'', ''true'')], suffix = []\<rparr>"

definition a_nov :: Analytic where
  "a_nov = \<lparr>Time = \<lparr>year = 2015, month = 11, day = 9, nsec = 0\<rparr>, Fields = [''de'']\<rparr>"

definition a_dec :: Analytic where
  "a_dec = \<lparr>Time = \<lparr>year = 2015, month = 12, day = 1, nsec = 0\<rparr>, Fields = [''fr'']\<rparr>"

definition a_new :: Analytic where
  "a_new = \<lparr>Time = \<lparr>year = 2015, month = 12, day = 8, nsec = 0\<rparr>, Fields = [''us'']\<rparr>"

definition w_site :: mem where
  "w_site =
     \<lparr>dirs = [(''/data/site'', Some [''2015-11'', ''2015-12''])],
      rows = [(\<lparr>Name = ''2015-11'', Directory = ''/data/site''\<rparr>, [a_nov]),
              (\<lparr>Name = ''2015-12'', Directory = ''/data/site''\<rparr>, [a_dec])],
      clock = t_dec15\<rparr>"

definition d_site :: "(mem, DBPath) Sharded" where
  "d_site = \<lparr>directory = ''/data'', cache = \<lparr>capacity = 8, items = []\<rparr>,
             world = w_site, trace = []\<rparr>"

definition p_site :: Params where
  "p_site = \<lparr>DBName = ''site'', URL = u_cache, TimeRange = None, Property = ''country'',
             Interval = 0, UniqueQuery = False\<rparr>"

section \<open>Properties\<close>

subsection \<open>The cache key\<close>

lemma delete_Values_Add:
  "AList.delete k (Values_Add m k' v) =
     (if k' = k then AList.delete k m else Values_Add (AList.delete k m) k' v)"
  by (simp add: Values_Add_def delete_update_same delete_update)

lemma delete_foldl_Values_Add:
  "AList.delete k (foldl (\<lambda>m (k, v). Values_Add m k v) m ps) =
     foldl (\<lambda>m (k, v). Values_Add m k v) (AList.delete k m) (filter (\<lambda>kv. fst kv \<noteq> k) ps)"
proof (induction ps arbitrary: m)
  case Nil
  show ?case by simp
next
  case (Cons a ps)
  obtain k' v where a: "a = (k', v)" by (cases a)
  show ?case
    by (simp add: a Cons.IH delete_Values_Add delete_idem)
qed

lemma Values_Del_URL_Query:
  "Values_Del (URL_Query u) k =
     foldl (\<lambda>m (k, v). Values_Add m k v) [] (filter (\<lambda>kv. fst kv \<noteq> k) (params u))"
  by (simp add: Values_Del_def URL_Query_def delete_foldl_Values_Add)

lemma map_of_Values_Add_other:
  "k' \<noteq> k \<Longrightarrow> map_of (Values_Add m k v) k' = map_of m k'"
  by (simp add: Values_Add_def update_conv')

lemma map_of_Values_Del:
  "map_of (Values_Del m k) k' = (if k' = k then None else map_of m k')"
  by (simp add: Values_Del_def delete_conv')

lemma map_of_cacheParams_cache:
  "map_of (cacheParams u s a b cm) ''cache'' =
     (if s < cm then None else map_of (URL_Query u) ''cache'')"
  by (simp add: cacheParams_def Let_def map_of_Values_Add_other map_of_Values_Del)

lemma current_month_dec15: "shardNameToInt (timeToShardName t_dec15) = Inr 201512"
  by code_simp

text \<open>
  C1 (as the source has it). \<^verbatim>\<open>formatURLForCache\<close> removes the "cache" query
  parameter from the key exactly when the shard is older than the current month
  (\<open>shard_int < now_int\<close>, "Remove cache for months before current month"); for the
  current month's shard and for later ones the key carries the request's "cache"
  values unchanged.
\<close>

theorem formatURLForCache_cache_param:
  assumes "shardNameToInt (timeToShardName now) = Inr currentMonth"
  shows "formatURLForCache now u s a b =
           Inr (URL_String u (Values_Encode (cacheParams u s a b currentMonth)))
         \<and> map_of (cacheParams u s a b currentMonth) ''cache'' =
             (if s < currentMonth then None else map_of (URL_Query u) ''cache'')"
  using assms by (simp add: formatURLForCache_def map_of_cacheParams_cache)

theorem formatURLForCache_cache_param_witness:
  "shardNameToInt (timeToShardName t_dec15) = Inr 201512
   \<and> formatURLForCache t_dec15 u_cache 201511 0 999999 = Inr ''/site/countries?shard=201511''
   \<and> map_of (cacheParams u_cache 201511 0 999999 201512) ''cache'' = None
   \<and> map_of (cacheParams u_cache 201512 0 999999 201512) ''cache'' = Some [''true'']"
proof -
  have e: "URL_String u_cache (Values_Encode (cacheParams u_cache 201511 0 999999 201512))
             = ''/site/countries?shard=201511''"
    by code_simp
  have q: "map_of (URL_Query u_cache) ''cache'' = Some [''true'']"
    by code_simp
  show ?thesis
    using current_month_dec15
      formatURLForCache_cache_param [OF current_month_dec15, of u_cache 201511 0 999999]
      formatURLForCache_cache_param [OF current_month_dec15, of u_cache 201512 0 999999] e q
    by simp
qed

text \<open>
  C1 as the spec states it fails: on December 8, 2015 the key of the request
  \<^verbatim>\<open>/site/countries?cache=true\<close> for the current month's shard 201512 still carries
  \<^verbatim>\<open>cache=true\<close>.
\<close>

theorem formatURLForCache_current_shard_keeps_cache:
  "map_of (cacheParams u_cache 201512 0 999999 201512) ''cache'' = Some [''true'']
   \<and> formatURLForCache t_dec15 u_cache 201512 0 999999 =
       Inr ''/site/countries?cache=true&shard=201512''"
  by code_simp

text \<open>
  C5. Two request URLs that differ only in their "start" parameter (the same prefix and
  suffix, the same other parameters in the same order) get the same cache key for a
  shard \<open>s\<close> when both resolved start integers are less than \<open>s\<close>, the end bound and
  the current month being equal.
\<close>

theorem formatURLForCache_start_collapse:
  assumes "prefix u1 = prefix u2" and "suffix u1 = suffix u2"
    and "filter (\<lambda>kv. fst kv \<noteq> ''start'') (params u1) =
         filter (\<lambda>kv. fst kv \<noteq> ''start'') (params u2)"
    and "start1 < s" and "start2 < s"
  shows "formatURLForCache now u1 s start1 endMonth = formatURLForCache now u2 s start2 endMonth"
proof -
  have "Values_Del (URL_Query u1) ''start'' = Values_Del (URL_Query u2) ''start''"
    using assms(3) by (simp add: Values_Del_URL_Query)
  then have "cacheParams u1 s start1 endMonth cm = cacheParams u2 s start2 endMonth cm" for cm
    using assms(4,5) by (simp add: cacheParams_def)
  then show ?thesis
    using assms(1,2) by (simp add: formatURLForCache_def URL_String_def split: sum.splits)
qed

theorem formatURLForCache_start_collapse_witness:
  "formatURLForCache t_dec15 u_start1 201506 201501 999999 =
     formatURLForCache t_dec15 u_start3 201506 201503 999999
   \<and> formatURLForCache t_dec15 u_start1 201506 201501 999999 =
       Inr ''/site/countries?shard=201506''
   \<and> formatURLForCache t_dec15 u_start1 201501 201501 999999 =
       Inr ''/site/countries?shard=201501&start=2015-01''"
proof -
  have "formatURLForCache t_dec15 u_start1 201506 201501 999999 =
          formatURLForCache t_dec15 u_start3 201506 201503 999999"
    by (rule formatURLForCache_start_collapse) (simp_all add: u_start1_def u_start3_def)
  moreover have "formatURLForCache t_dec15 u_start1 201506 201501 999999 =
       Inr ''/site/countries?shard=201506''"
    by code_simp
  moreover have "formatURLForCache t_dec15 u_start1 201501 201501 999999 =
       Inr ''/site/countries?shard=201501&start=2015-01''"
    by code_simp
  ultimately show ?thesis by simp
qed

end
